theory Spec2Isabelle
  imports Complex_Main "HOL-Library.AList" "HOL-Library.Sublist" "HOL-Library.Word"
begin

section \<open>Common types\<close>

text \<open>
  A Go \<^verbatim>\<open>[]byte\<close> is a list of 8-bit words.  A \<^verbatim>\<open>time.Time\<close> instant is an
  integer number of nanoseconds on the process clock and a \<^verbatim>\<open>time.Duration\<close> is an
  integer number of nanoseconds, so \<^verbatim>\<open>t.Add(d)\<close> is \<open>t + d\<close> and \<^verbatim>\<open>t.After(u)\<close> is
  \<open>t > u\<close>.  Go maps are association lists read through \<^const>\<open>map_of\<close> and written
  through \<^const>\<open>AList.update\<close> and \<^const>\<open>AList.delete\<close>; \<^verbatim>\<open>len(m) == 0\<close> is \<open>m = []\<close>.
  The counters are \<^verbatim>\<open>int64\<close>/\<^verbatim>\<open>int32\<close> in the source and unbounded integers here;
  no property below runs a counter near its bound.
\<close>

type_synonym byte = "8 word"

definition Second :: int where
  "Second = 1000000000"

definition Minute :: int where
  "Minute = 60 * Second"

section \<open>Device cache (package cache)\<close>

record CacheEntry =
  ProcessedPath :: string
  CacheExpires :: int
  FileExpires :: int
  Created :: int
  Uses :: int
  Size :: int
  MediaType :: string
  URL :: string

text \<open>
  Of \<^verbatim>\<open>CacheStats\<close> only the three counters are ever written by the package; the
  other fields of the struct keep their zero values and are left out.
\<close>

record CacheStats =
  Hits :: int
  Misses :: int
  Evictions :: int

record DeviceCache =
  cache :: "(string \<times> (string \<times> CacheEntry) list) list"
  cacheTTL :: int
  fileTTL :: int
  cacheDir :: string
  stats :: CacheStats

text \<open>
  \<^verbatim>\<open>NewDeviceCache\<close>: a non-positive TTL is replaced by its default; nothing relates
  the two TTLs to each other.
\<close>

definition NewDeviceCache :: "string \<Rightarrow> int \<Rightarrow> int \<Rightarrow> DeviceCache" where
  "NewDeviceCache dir cTTL fTTL =
     \<lparr>cache = [],
      cacheTTL = (if cTTL \<le> 0 then 28 * Minute else cTTL),
      fileTTL = (if fTTL \<le> 0 then 30 * Minute else fTTL),
      cacheDir = dir,
      stats = \<lparr>Hits = 0, Misses = 0, Evictions = 0\<rparr>\<rparr>"

definition recordHit :: "DeviceCache \<Rightarrow> DeviceCache" where
  "recordHit dc = dc\<lparr>stats := (stats dc)\<lparr>Hits := Hits (stats dc) + 1\<rparr>\<rparr>"

definition recordMiss :: "DeviceCache \<Rightarrow> DeviceCache" where
  "recordMiss dc = dc\<lparr>stats := (stats dc)\<lparr>Misses := Misses (stats dc) + 1\<rparr>\<rparr>"

text \<open>
  \<^verbatim>\<open>DeviceCache.Get\<close>.  \<open>H\<close> is \<^verbatim>\<open>hashURL\<close> (the hex MD5 digest of the URL, a
  function of the standard library) and \<open>now\<close> is the reading of \<^verbatim>\<open>time.Now()\<close>.
  The result pairs the returned pointer (\<open>None\<close> for \<^verbatim>\<open>nil\<close>, else the entry as it
  stands after the increment) with the cache after the call.
\<close>

definition DeviceCache_Get ::
  "(string \<Rightarrow> string) \<Rightarrow> int \<Rightarrow> DeviceCache \<Rightarrow> string \<Rightarrow> string
     \<Rightarrow> CacheEntry option \<times> DeviceCache" where
  "DeviceCache_Get H now dc deviceID url =
     (let urlHash = H url in
      case map_of (cache dc) deviceID of
        None \<Rightarrow> (None, recordMiss dc)
      | Some deviceCache \<Rightarrow>
          (case map_of deviceCache urlHash of
             None \<Rightarrow> (None, recordMiss dc)
           | Some entry \<Rightarrow>
               if now > CacheExpires entry then (None, recordMiss dc)
               else
                 let entry' = entry\<lparr>Uses := Uses entry + 1\<rparr>;
                     dc' = dc\<lparr>cache :=
                             AList.update deviceID
                               (AList.update urlHash entry' deviceCache) (cache dc)\<rparr>
                 in (Some entry', recordHit dc')))"

text \<open>
  The goroutine \<^verbatim>\<open>Set\<close> starts with \<^verbatim>\<open>go dc.scheduleFileDeletion(...)\<close>: its four
  arguments and the clock reading of the \<^verbatim>\<open>Set\<close> that started it.  It sleeps
  \<open>del_ttl\<close>, so it wakes no earlier than \<open>armed_at + del_ttl\<close>.
\<close>

record deleter =
  armed_at :: int
  del_deviceID :: string
  del_urlHash :: string
  del_filePath :: string
  del_ttl :: int

text \<open>
  \<^verbatim>\<open>DeviceCache.Set\<close> (it always returns a \<^verbatim>\<open>nil\<close> error): the new cache and the
  goroutine it started.
\<close>

definition DeviceCache_Set ::
  "(string \<Rightarrow> string) \<Rightarrow> int \<Rightarrow> DeviceCache \<Rightarrow> string \<Rightarrow> string \<Rightarrow> string \<Rightarrow> string \<Rightarrow> int
     \<Rightarrow> DeviceCache \<times> deleter" where
  "DeviceCache_Set H now dc deviceID url processedPath mediaType fileSize =
     (let urlHash = H url;
          deviceCache = (case map_of (cache dc) deviceID of None \<Rightarrow> [] | Some m \<Rightarrow> m);
          entry = \<lparr>ProcessedPath = processedPath,
                   CacheExpires = now + cacheTTL dc,
                   FileExpires = now + fileTTL dc,
                   Created = now,
                   Uses = 0,
                   Size = fileSize,
                   MediaType = mediaType,
                   URL = url\<rparr>
      in (dc\<lparr>cache := AList.update deviceID (AList.update urlHash entry deviceCache) (cache dc)\<rparr>,
          \<lparr>armed_at = now, del_deviceID = deviceID, del_urlHash = urlHash,
           del_filePath = processedPath, del_ttl = fileTTL dc\<rparr>))"

text \<open>The file system: the regular files by path, each with its contents.\<close>

type_synonym files = "string \<Rightarrow> byte list option"

text \<open>
  What \<^verbatim>\<open>scheduleFileDeletion\<close> does once its sleep is over.  \<^verbatim>\<open>os.Remove\<close> succeeds
  when the file exists and fails with a not-exist error otherwise (other failures of
  the operating system are not modelled; they only write a log line).
\<close>

definition scheduleFileDeletion :: "deleter \<Rightarrow> DeviceCache \<Rightarrow> files \<Rightarrow> DeviceCache \<times> files" where
  "scheduleFileDeletion g dc fs =
     (let cache' =
            (case map_of (cache dc) (del_deviceID g) of
               None \<Rightarrow> cache dc
             | Some deviceCache \<Rightarrow>
                 (let deviceCache' = AList.delete (del_urlHash g) deviceCache in
                  if deviceCache' = [] then AList.delete (del_deviceID g) (cache dc)
                  else AList.update (del_deviceID g) deviceCache' (cache dc)));
          dc' = dc\<lparr>cache := cache'\<rparr>
      in case fs (del_filePath g) of
           None \<Rightarrow> (dc', fs)
         | Some _ \<Rightarrow>
             (dc'\<lparr>stats := (stats dc')\<lparr>Evictions := Evictions (stats dc') + 1\<rparr>\<rparr>,
              fs(del_filePath g := None)))"

text \<open>
  \<^verbatim>\<open>cleanup\<close>, the body of the sweeper's tick: the swept cache and the paths it hands
  to the goroutine that removes the files.
\<close>

definition cleanup :: "int \<Rightarrow> DeviceCache \<Rightarrow> DeviceCache \<times> string list" where
  "cleanup now dc =
     (let expired = (\<lambda>(urlHash, entry). now > FileExpires entry);
          expiredFiles =
            concat (map (\<lambda>(deviceID, deviceCache).
                           map (\<lambda>(urlHash, entry). ProcessedPath entry) (filter expired deviceCache))
                        (cache dc));
          swept = map (\<lambda>(deviceID, deviceCache).
                         (deviceID, filter (\<lambda>x. \<not> expired x) deviceCache)) (cache dc)
      in (dc\<lparr>cache := filter (\<lambda>(deviceID, deviceCache). deviceCache \<noteq> []) swept\<rparr>,
          expiredFiles))"

fun remove_files :: "string list \<Rightarrow> files \<Rightarrow> files" where
  "remove_files [] fs = fs"
| "remove_files (p # ps) fs = remove_files ps (fs(p := None))"

text \<open>The entry the map holds for a device and a URL hash, if any.\<close>

definition lookup :: "DeviceCache \<Rightarrow> string \<Rightarrow> string \<Rightarrow> CacheEntry option" where
  "lookup dc deviceID urlHash =
     (case map_of (cache dc) deviceID of
        None \<Rightarrow> None
      | Some deviceCache \<Rightarrow> map_of deviceCache urlHash)"

subsection \<open>The cache and its goroutines as a transition system\<close>

text \<open>
  The cache, the files, the goroutines \<^verbatim>\<open>Set\<close> has started that are still asleep,
  and the clock.  An event carries the clock reading at which it happens: a call of
  \<^verbatim>\<open>Set\<close> or \<^verbatim>\<open>Get\<close>, the \<open>i\<close>-th sleeping goroutine waking up (possible only once
  its sleep is over), or a tick of the sweeper (whose file removals are taken to
  complete at once).
\<close>

record System =
  sys_cache :: DeviceCache
  sys_files :: files
  sleeping :: "deleter list"
  clock :: int

datatype event =
    Ev_Set string string string string int
  | Ev_Get string string
  | Ev_Wake nat
  | Ev_Cleanup

definition boot :: "DeviceCache \<Rightarrow> files \<Rightarrow> System" where
  "boot dc fs = \<lparr>sys_cache = dc, sys_files = fs, sleeping = [], clock = 0\<rparr>"

fun step :: "(string \<Rightarrow> string) \<Rightarrow> System \<Rightarrow> int \<times> event \<Rightarrow> System option" where
  "step H s (now, Ev_Set deviceID url path mediaType fileSize) =
     (if now < clock s then None
      else
        (let (dc', g) = DeviceCache_Set H now (sys_cache s) deviceID url path mediaType fileSize
         in Some (s\<lparr>sys_cache := dc', sleeping := sleeping s @ [g], clock := now\<rparr>)))"
| "step H s (now, Ev_Get deviceID url) =
     (if now < clock s then None
      else Some (s\<lparr>sys_cache := snd (DeviceCache_Get H now (sys_cache s) deviceID url),
                   clock := now\<rparr>))"
| "step H s (now, Ev_Wake i) =
     (if now < clock s \<or> length (sleeping s) \<le> i then None
      else
        (let g = sleeping s ! i in
         if now < armed_at g + del_ttl g then None
         else
           (let (dc', fs') = scheduleFileDeletion g (sys_cache s) (sys_files s)
            in Some (s\<lparr>sys_cache := dc', sys_files := fs',
                       sleeping := take i (sleeping s) @ drop (Suc i) (sleeping s),
                       clock := now\<rparr>))))"
| "step H s (now, Ev_Cleanup) =
     (if now < clock s then None
      else
        (let (dc', expiredFiles) = cleanup now (sys_cache s)
         in Some (s\<lparr>sys_cache := dc', sys_files := remove_files expiredFiles (sys_files s),
                    clock := now\<rparr>)))"

fun run :: "(string \<Rightarrow> string) \<Rightarrow> System \<Rightarrow> (int \<times> event) list \<Rightarrow> System option" where
  "run H s [] = Some s"
| "run H s (e # es) = (case step H s e of None \<Rightarrow> None | Some s' \<Rightarrow> run H s' es)"

text \<open>A sequence of \<^verbatim>\<open>Get\<close> calls, each with its clock reading, device and URL.\<close>

fun Gets :: "(string \<Rightarrow> string) \<Rightarrow> DeviceCache \<Rightarrow> (int \<times> string \<times> string) list \<Rightarrow> DeviceCache" where
  "Gets H dc [] = dc"
| "Gets H dc ((now, deviceID, url) # calls) =
     Gets H (snd (DeviceCache_Get H now dc deviceID url)) calls"

section \<open>Failures\<close>

text \<open>
  A Go function that fails either returns an error (\<open>Error\<close>, tagged with the constant
  part of the message of its \<^verbatim>\<open>fmt.Errorf\<close>) or panics at run time (\<open>Panic\<close>).  A
  fallible function returns \<open>failure + 'a\<close>.
\<close>

datatype failure = Error string | Panic string

section \<open>Buffer pool (package pool)\<close>

text \<open>
  A byte slice that starts at the beginning of its backing array: \<open>arr\<close> is the
  backing array (its length is the capacity) and \<open>len\<close> the length of the slice.
\<close>

record buffer =
  arr :: "byte list"
  len :: nat

definition cap :: "buffer \<Rightarrow> int" where
  "cap b = int (length (arr b))"

definition contents :: "buffer \<Rightarrow> byte list" where
  "contents b = take (len b) (arr b)"

text \<open>\<^verbatim>\<open>make([]byte, n)\<close> panics on a negative length.\<close>

definition make_bytes :: "int \<Rightarrow> failure + buffer" where
  "make_bytes n =
     (if n < 0 then Inl (Panic ''makeslice: len out of range'')
      else Inr \<lparr>arr = replicate (nat n) 0, len = nat n\<rparr>)"

text \<open>\<^verbatim>\<open>b[:n]\<close> panics unless \<open>0 \<le> n \<le> cap b\<close>.\<close>

definition reslice :: "buffer \<Rightarrow> int \<Rightarrow> failure + buffer" where
  "reslice b n =
     (if n < 0 \<or> cap b < n then Inl (Panic ''slice bounds out of range'')
      else Inr (b\<lparr>len := nat n\<rparr>))"

text \<open>
  \<open>pool\<close> is what the \<^verbatim>\<open>sync.Pool\<close> holds, most recently returned first.  A
  \<^verbatim>\<open>sync.Pool\<close> may also drop what it holds at a garbage collection; the model keeps
  every buffer, the case most favourable to reuse.  The field \<^verbatim>\<open>size\<close> is \<open>bufsize\<close>.
\<close>

record BufferPool =
  pool :: "buffer list"
  bufsize :: int
  allocated :: int
  inUse :: int
  hits :: int
  misses :: int

definition NewBufferPool :: "int \<Rightarrow> int \<Rightarrow> failure + BufferPool" where
  "NewBufferPool count size0 =
     (if count < 0 then Inl (Panic ''makeslice: len out of range'')
      else if 0 < count \<and> size0 < 0 then Inl (Panic ''makeslice: len out of range'')
      else Inr \<lparr>pool = replicate (nat count) \<lparr>arr = replicate (nat size0) 0, len = nat size0\<rparr>,
                bufsize = size0, allocated = count, inUse = 0, hits = 0, misses = 0\<rparr>)"

text \<open>
  The \<^verbatim>\<open>New\<close> function of the \<^verbatim>\<open>sync.Pool\<close>: it counts an allocation and a miss and
  makes a buffer.
\<close>

definition pool_New :: "BufferPool \<Rightarrow> failure + buffer \<times> BufferPool" where
  "pool_New bp =
     (case make_bytes (bufsize bp) of
        Inl e \<Rightarrow> Inl e
      | Inr b \<Rightarrow> Inr (b, bp\<lparr>allocated := allocated bp + 1, misses := misses bp + 1\<rparr>))"

text \<open>
  \<^verbatim>\<open>BufferPool.Get\<close>: \<open>inUse\<close> and \<open>hits\<close> are incremented first, whatever the
  \<^verbatim>\<open>sync.Pool\<close> then does: it hands out a buffer it holds, or calls \<^verbatim>\<open>New\<close> when it
  holds none.
\<close>

definition BufferPool_Get :: "BufferPool \<Rightarrow> failure + buffer \<times> BufferPool" where
  "BufferPool_Get bp =
     (let bp1 = bp\<lparr>inUse := inUse bp + 1, hits := hits bp + 1\<rparr> in
      case pool bp1 of
        b # rest \<Rightarrow> Inr (b, bp1\<lparr>pool := rest\<rparr>)
      | [] \<Rightarrow> pool_New bp1)"

text \<open>\<^verbatim>\<open>BufferPool.Put\<close>; \<open>None\<close> is the \<^verbatim>\<open>nil\<close> slice.\<close>

definition BufferPool_Put :: "BufferPool \<Rightarrow> buffer option \<Rightarrow> failure + BufferPool" where
  "BufferPool_Put bp buf =
     (case buf of
        None \<Rightarrow> Inr bp
      | Some b \<Rightarrow>
          if cap b < bufsize bp then Inr bp
          else
            (case reslice b (bufsize bp) of
               Inl e \<Rightarrow> Inl e
             | Inr b' \<Rightarrow> Inr (bp\<lparr>inUse := inUse bp - 1, pool := b' # pool bp\<rparr>)))"

definition BufferPool_GetSized :: "BufferPool \<Rightarrow> int \<Rightarrow> failure + buffer \<times> BufferPool" where
  "BufferPool_GetSized bp n =
     (if n \<le> bufsize bp then
        (case BufferPool_Get bp of
           Inl e \<Rightarrow> Inl e
         | Inr (buf, bp') \<Rightarrow>
             (case reslice buf n of Inl e \<Rightarrow> Inl e | Inr buf' \<Rightarrow> Inr (buf', bp')))
      else
        (case make_bytes n of
           Inl e \<Rightarrow> Inl e
         | Inr buf \<Rightarrow> Inr (buf, bp\<lparr>inUse := inUse bp + 1\<rparr>)))"

definition BufferPool_PutSized :: "BufferPool \<Rightarrow> buffer option \<Rightarrow> failure + BufferPool" where
  "BufferPool_PutSized bp buf =
     (if (case buf of None \<Rightarrow> 0 | Some b \<Rightarrow> cap b) \<ge> bufsize bp then BufferPool_Put bp buf
      else Inr (bp\<lparr>inUse := inUse bp - 1\<rparr>))"

text \<open>
  A sequence of acquisitions and releases on a pool.  \<open>Release\<close> gives back the
  buffer handed out by the \<open>i\<close>-th acquisition so far.  The run counts, beside the
  pool's own counters, the acquisitions made (\<open>acquired\<close>), those the
  \<^verbatim>\<open>sync.Pool\<close> served from what it held (\<open>from_reserve\<close>) and the calls of the
  factory \<^verbatim>\<open>New\<close> (\<open>from_factory\<close>).
\<close>

datatype pool_op = Acquire | Release nat

record pool_run =
  bp_of :: BufferPool
  handed :: "buffer list"
  acquired :: int
  from_reserve :: int
  from_factory :: int

fun pool_step :: "pool_run \<Rightarrow> pool_op \<Rightarrow> failure + pool_run" where
  "pool_step r Acquire =
     (case BufferPool_Get (bp_of r) of
        Inl e \<Rightarrow> Inl e
      | Inr (b, bp') \<Rightarrow>
          Inr (r\<lparr>bp_of := bp', handed := handed r @ [b], acquired := acquired r + 1,
                 from_reserve := from_reserve r + (if pool (bp_of r) = [] then 0 else 1),
                 from_factory := from_factory r + (if pool (bp_of r) = [] then 1 else 0)\<rparr>))"
| "pool_step r (Release i) =
     (if i < length (handed r) then
        (case BufferPool_Put (bp_of r) (Some (handed r ! i)) of
           Inl e \<Rightarrow> Inl e
         | Inr bp' \<Rightarrow> Inr (r\<lparr>bp_of := bp'\<rparr>))
      else Inr r)"

fun pool_steps :: "pool_run \<Rightarrow> pool_op list \<Rightarrow> failure + pool_run" where
  "pool_steps r [] = Inr r"
| "pool_steps r (x # xs) = (case pool_step r x of Inl e \<Rightarrow> Inl e | Inr r' \<Rightarrow> pool_steps r' xs)"

definition pool_start :: "BufferPool \<Rightarrow> pool_run" where
  "pool_start bp = \<lparr>bp_of = bp, handed = [], acquired = 0, from_reserve = 0, from_factory = 0\<rparr>"

section \<open>Downloader (package services)\<close>

text \<open>
  What the HTTP client answers: the status code, the \<^verbatim>\<open>ContentLength\<close> field (\<open>-1\<close>
  when the length is unknown) and the bytes the server sends as the body.
\<close>

record Response =
  StatusCode :: int
  ContentLength :: int
  Body :: "byte list"

text \<open>
  The outcome of building and sending the request (\<^verbatim>\<open>http.NewRequestWithContext\<close>,
  \<^verbatim>\<open>client.Do\<close>): external to the program.
\<close>

datatype http_outcome = RequestError | DoError | Responded Response

record Downloader =
  maxSize :: int
  timeout :: int

definition NewDownloader :: "int \<Rightarrow> int \<Rightarrow> Downloader" where
  "NewDownloader maxSize0 timeout0 =
     \<lparr>maxSize = (if maxSize0 \<le> 0 then 500 * 1024 * 1024 else maxSize0),
      timeout = (if timeout0 \<le> 0 then 30 * Second else timeout0)\<rparr>"

text \<open>
  What reading \<^verbatim>\<open>resp.Body\<close> yields.  With a known length the client hands out at
  most that many bytes and reports \<^verbatim>\<open>io.ErrUnexpectedEOF\<close> when the server sent fewer
  (\<open>body_short\<close>); with an unknown length it hands out the bytes up to the end of the
  stream.  Other transport errors in the middle of a body are not modelled.
\<close>

definition body_stream :: "Response \<Rightarrow> byte list" where
  "body_stream resp =
     (if ContentLength resp \<ge> 0 then take (nat (ContentLength resp)) (Body resp)
      else Body resp)"

definition body_short :: "Response \<Rightarrow> bool" where
  "body_short resp \<longleftrightarrow>
     ContentLength resp \<ge> 0 \<and> int (length (Body resp)) < ContentLength resp"

text \<open>
  \<^verbatim>\<open>io.ReadAll(io.LimitReader(resp.Body, d.maxSize))\<close>: at most \<open>maxSize\<close> bytes of
  the stream, and no error when the stream holds more; an error when the body ends
  early.
\<close>

definition read_limited :: "Downloader \<Rightarrow> Response \<Rightarrow> failure + byte list" where
  "read_limited d resp =
     (if body_short resp \<and> int (length (Body resp)) < maxSize d then Inl (Error ''read failed'')
      else Inr (take (nat (maxSize d)) (body_stream resp)))"

text \<open>
  The pooled branch of \<^verbatim>\<open>Download\<close>: \<^verbatim>\<open>GetSized\<close>, \<^verbatim>\<open>io.ReadFull\<close> into the buffer
  (an \<^verbatim>\<open>io.ErrUnexpectedEOF\<close> is let through), the copy of the bytes read, and the
  deferred \<^verbatim>\<open>PutSized\<close>.
\<close>

definition read_pooled :: "BufferPool \<Rightarrow> Response \<Rightarrow> (failure + byte list) \<times> BufferPool" where
  "read_pooled bp resp =
     (case BufferPool_GetSized bp (ContentLength resp) of
        Inl e \<Rightarrow> (Inl e, bp)
      | Inr (buf, bp1) \<Rightarrow>
          (let n = min (len buf) (length (body_stream resp));
               buf' = buf\<lparr>arr := take n (body_stream resp) @ drop n (arr buf)\<rparr>;
               data = take n (contents buf')
           in case BufferPool_PutSized bp1 (Some buf') of
                Inl e \<Rightarrow> (Inl e, bp1)
              | Inr bp2 \<Rightarrow> (Inr data, bp2)))"

text \<open>
  \<^verbatim>\<open>Downloader.Download\<close>.  \<open>http\<close> is the HTTP client.  \<^verbatim>\<open>GetStats().Allocated\<close> is
  the pool's \<open>allocated\<close> counter.
\<close>

definition Download ::
  "Downloader \<Rightarrow> (string \<Rightarrow> http_outcome) \<Rightarrow> BufferPool \<Rightarrow> string
     \<Rightarrow> (failure + byte list) \<times> BufferPool" where
  "Download d http bp url =
     (if url = [] then (Inl (Error ''empty URL''), bp)
      else if \<not> prefix ''http://'' url \<and> \<not> prefix ''https://'' url then
        (Inl (Error ''invalid URL scheme: must be http:// or https://''), bp)
      else
        (case http url of
           RequestError \<Rightarrow> (Inl (Error ''failed to create request''), bp)
         | DoError \<Rightarrow> (Inl (Error ''download failed''), bp)
         | Responded resp \<Rightarrow>
             if StatusCode resp \<noteq> 200 then (Inl (Error ''download failed: HTTP''), bp)
             else if ContentLength resp > maxSize d then (Inl (Error ''file too large''), bp)
             else
               (let (r, bp') =
                      (if ContentLength resp > 0 then
                         (if ContentLength resp \<le> allocated bp then read_pooled bp resp
                          else (read_limited d resp, bp))
                       else (read_limited d resp, bp))
                in case r of
                     Inl e \<Rightarrow> (Inl e, bp')
                   | Inr data \<Rightarrow>
                       if data = [] then (Inl (Error ''downloaded file is empty''), bp')
                       else (Inr data, bp'))))"

section \<open>Random draws\<close>

text \<open>
  The process-global generator of \<^verbatim>\<open>math/rand\<close> is an unknown sequence of draws
  \<open>draws\<close>, of which \<open>drawn\<close> have been consumed.  \<^verbatim>\<open>rand.Intn(n)\<close> panics unless
  \<open>n > 0\<close> and otherwise returns a number in \<open>[0, n)\<close>; every such number is returned
  for some sequence.
\<close>

record rng =
  draws :: "nat \<Rightarrow> nat"
  drawn :: nat

type_synonym 'a rand = "rng \<Rightarrow> (failure + 'a) \<times> rng"

definition Intn :: "int \<Rightarrow> int rand" where
  "Intn n g =
     (if n \<le> 0 then (Inl (Panic ''invalid argument to Intn''), g)
      else (Inr (int (draws g (drawn g)) mod n), g\<lparr>drawn := drawn g + 1\<rparr>))"

definition rreturn :: "'a \<Rightarrow> 'a rand" where
  "rreturn x g = (Inr x, g)"

definition rbind :: "'a rand \<Rightarrow> ('a \<Rightarrow> 'b rand) \<Rightarrow> 'b rand" where
  "rbind m f g = (case m g of (Inl e, g') \<Rightarrow> (Inl e, g') | (Inr x, g') \<Rightarrow> f x g')"

section \<open>Video converter: sampled parameters\<close>

text \<open>
  The \<^verbatim>\<open>float64\<close> fields hold exact rationals here.  \<open>int_of_percent b p\<close> is
  \<^verbatim>\<open>int(float64(b) * (p / 100.0))\<close> computed exactly: the product truncated towards
  zero.  The source computes the product in \<^verbatim>\<open>float64\<close>, which can differ from the
  exact value only by a rounding error far below 1, so the two agree whenever the
  exact product is not within such an error of an integer.
\<close>

record videoParams =
  v_bitrate :: int
  v_crf :: int
  v_preset :: string
  v_keyframeInterval :: int
  v_addNoise :: bool
  v_noiseStrength :: int
  v_colorAdjust :: bool
  v_brightness :: rat
  v_contrast :: rat
  v_saturation :: rat
  v_addTimestamp :: bool

definition int_of_percent :: "int \<Rightarrow> int \<Rightarrow> int" where
  "int_of_percent b p =
     (if b * p \<ge> 0 then (b * p) div 100 else - ((- (b * p)) div 100))"

definition videoParams0 :: "int \<Rightarrow> videoParams" where
  "videoParams0 originalBitrate =
     \<lparr>v_bitrate = originalBitrate, v_crf = 23, v_preset = ''medium'', v_keyframeInterval = 250,
      v_addNoise = False, v_noiseStrength = 0, v_colorAdjust = False,
      v_brightness = 0, v_contrast = 0, v_saturation = 0, v_addTimestamp = False\<rparr>"

definition VideoConverter_getRandomizedParams :: "string \<Rightarrow> int \<Rightarrow> videoParams rand" where
  "VideoConverter_getRandomizedParams level originalBitrate =
     (let params = videoParams0 originalBitrate in
      if level = ''basic'' then
        rbind (Intn 6) (\<lambda>k.
        let bitrateVariation = int_of_percent originalBitrate (5 + k) in
        rbind (Intn (bitrateVariation * 2)) (\<lambda>r.
        rbind (Intn 3) (\<lambda>c.
        rbind (Intn 21) (\<lambda>kf.
        rreturn (params\<lparr>v_bitrate := originalBitrate + bitrateVariation - r,
                        v_crf := 22 + c,
                        v_keyframeInterval := 240 + kf\<rparr>)))))
      else if level = ''moderate'' then
        rbind (Intn 5) (\<lambda>k.
        let bitrateVariation = int_of_percent originalBitrate (8 + k) in
        rbind (Intn (bitrateVariation * 2)) (\<lambda>r.
        rbind (Intn 4) (\<lambda>c.
        rbind (Intn 41) (\<lambda>kf.
        rbind (Intn 2) (\<lambda>ns.
        rbind (Intn 3) (\<lambda>b.
        rbind (Intn 3) (\<lambda>ct.
        rbind (Intn 3) (\<lambda>st.
        rreturn (params\<lparr>v_bitrate := originalBitrate + bitrateVariation - r,
                        v_crf := 22 + c,
                        v_keyframeInterval := 230 + kf,
                        v_addNoise := True,
                        v_noiseStrength := 1 + ns,
                        v_colorAdjust := True,
                        v_brightness := of_int (b - 1) / 1000,
                        v_contrast := 1 + of_int (ct - 1) / 1000,
                        v_saturation := 1 + of_int (st - 1) / 1000\<rparr>)))))))))
      else if level = ''paranoid'' then
        rbind (Intn 6) (\<lambda>k.
        let bitrateVariation = int_of_percent originalBitrate (10 + k) in
        rbind (Intn (bitrateVariation * 2)) (\<lambda>r.
        rbind (Intn 5) (\<lambda>c.
        rbind (Intn 61) (\<lambda>kf.
        rbind (Intn 3) (\<lambda>pr.
        rbind (Intn 4) (\<lambda>ns.
        rbind (Intn 5) (\<lambda>b.
        rbind (Intn 5) (\<lambda>ct.
        rbind (Intn 5) (\<lambda>st.
        rreturn (params\<lparr>v_bitrate := originalBitrate + bitrateVariation - r,
                        v_crf := 21 + c,
                        v_keyframeInterval := 220 + kf,
                        v_preset := [''fast'', ''medium'', ''medium''] ! nat pr,
                        v_addNoise := True,
                        v_noiseStrength := 2 + ns,
                        v_colorAdjust := True,
                        v_brightness := of_int (b - 2) / 1000,
                        v_contrast := 1 + of_int (ct - 2) / 1000,
                        v_saturation := 1 + of_int (st - 2) / 1000,
                        v_addTimestamp := True\<rparr>))))))))))
      else
        rreturn (params\<lparr>v_bitrate := originalBitrate, v_crf := 23, v_keyframeInterval := 250\<rparr>))"

section \<open>The service's surroundings\<close>

text \<open>
  A transcoder invocation: what the argument vector of the child process is built
  from.  The vector itself is a function of these values (the sampled parameters
  and, per converter, the output format, the level, the audio bitrate drawn while
  the vector is built, or the input length divided by 1000).
\<close>

record audioParams =
  a_bitrate :: int
  a_compression :: int
  a_silencePadding :: int
  a_pitchShift :: rat
  a_addNoise :: bool
  a_noiseLevel :: rat

record imageParams =
  i_quality :: int
  i_compressionLevel :: int
  i_jpegQScale :: int
  i_addNoise :: bool
  i_noiseStrength :: int
  i_colorAdjust :: bool
  i_brightness :: rat
  i_contrast :: rat
  i_addBlur :: bool
  i_blurAmount :: rat

datatype job =
    AudioJob audioParams int
  | ImageJob imageParams string
  | VideoJob videoParams "int option"

text \<open>
  Everything outside the program that a request touches, as functions of what the
  program hands over:
  \<^item> \<open>hashURL\<close>: the hex MD5 digest (32 characters);
  \<^item> \<open>toLower\<close>: \<^verbatim>\<open>strings.ToLower\<close>;
  \<^item> \<open>joinPath\<close>: \<^verbatim>\<open>filepath.Join\<close> of a directory and a file name;
  \<^item> \<open>b64decode\<close>: \<^verbatim>\<open>base64.StdEncoding.DecodeString\<close> (\<open>None\<close>: an error);
  \<^item> \<open>http\<close>: the HTTP client;
  \<^item> \<open>ffmpeg\<close>: the transcoder run on a job and standard input (\<open>None\<close>: it could
    not run or exited with a non-zero status; else its standard output);
  \<^item> \<open>ffprobe\<close>: the probe's output parsed by \<^verbatim>\<open>strconv.Atoi\<close> (\<open>None\<close>: the probe or
    the parse failed; else bits per second);
  \<^item> \<open>mkdirOk\<close>, \<open>writeOk\<close>: whether \<^verbatim>\<open>os.MkdirAll\<close> of a directory and
    \<^verbatim>\<open>os.WriteFile\<close> to a path succeed.
\<close>

record env =
  hashURL :: "string \<Rightarrow> string"
  toLower :: "string \<Rightarrow> string"
  joinPath :: "string \<Rightarrow> string \<Rightarrow> string"
  b64decode :: "string \<Rightarrow> byte list option"
  http :: "string \<Rightarrow> http_outcome"
  ffmpeg :: "job \<Rightarrow> byte list \<Rightarrow> byte list option"
  ffprobe :: "byte list \<Rightarrow> int option"
  mkdirOk :: "string \<Rightarrow> bool"
  writeOk :: "string \<Rightarrow> bool"

text \<open>
  The state a request reads and writes: the cache, the files, the buffer pool, the
  random generator, and the deletion goroutines started so far.
\<close>

record world =
  w_cache :: DeviceCache
  w_files :: files
  w_pool :: BufferPool
  w_rng :: rng
  w_started :: "deleter list"

text \<open>
  \<^verbatim>\<open>os.WriteFile\<close> and the common tail of the three \<^verbatim>\<open>Convert\<close> methods: run the
  transcoder, refuse an empty output, write the file.  The result is the returned
  error (\<open>None\<close> for \<^verbatim>\<open>nil\<close>).  The converters' own statistics are written by
  nothing else and read by no handler; they are left out.
\<close>

definition transcode_to ::
  "env \<Rightarrow> job \<Rightarrow> byte list \<Rightarrow> string \<Rightarrow> world \<Rightarrow> failure option \<times> world" where
  "transcode_to E j inputData path w =
     (case ffmpeg E j inputData of
        None \<Rightarrow> (Some (Error ''ffmpeg error''), w)
      | Some output \<Rightarrow>
          if output = [] then (Some (Error ''ffmpeg produced no output''), w)
          else if \<not> writeOk E path then (Some (Error ''failed to write output file''), w)
          else (None, w\<lparr>w_files := (w_files w)(path \<mapsto> output)\<rparr>))"

text \<open>Decimal printing of an integer (\<^verbatim>\<open>%d\<close>, \<^verbatim>\<open>strconv.Itoa\<close>).\<close>

definition digit_char :: "nat \<Rightarrow> char" where
  "digit_char n = ''0123456789'' ! (n mod 10)"

function digits :: "nat \<Rightarrow> string" where
  "digits n = (if n < 10 then [digit_char n] else digits (n div 10) @ [digit_char n])"
  by pat_completeness auto
termination
  by (relation "measure id") auto

definition Itoa :: "int \<Rightarrow> string" where
  "Itoa i = (if i < 0 then CHR ''-'' # digits (nat (- i)) else digits (nat i))"

text \<open>
  \<^verbatim>\<open>GenerateOutputPath\<close>, the same in the three converters but for the extension.
  \<open>now\<close> is the reading of \<^verbatim>\<open>time.Now()\<close>; its \<^verbatim>\<open>Unix()\<close> is the number of whole
  seconds.  \<^verbatim>\<open>urlHash[:8]\<close> is within bounds for a digest of 32 characters.
\<close>

definition GenerateOutputPath ::
  "env \<Rightarrow> string \<Rightarrow> int \<Rightarrow> string \<Rightarrow> string \<Rightarrow> string \<Rightarrow> string" where
  "GenerateOutputPath E ext now dir deviceID urlHash =
     joinPath E dir (deviceID @ ''_'' @ take 8 urlHash @ ''_'' @ Itoa (now div Second) @ ext)"

subsection \<open>Audio converter\<close>

definition AudioConverter_getRandomizedParams :: "string \<Rightarrow> audioParams rand" where
  "AudioConverter_getRandomizedParams level =
     (let params = \<lparr>a_bitrate = 72, a_compression = 10, a_silencePadding = 0,
                     a_pitchShift = 0, a_addNoise = False, a_noiseLevel = 0\<rparr> in
      if level = ''basic'' then
        rbind (Intn 5) (\<lambda>b.
        rbind (Intn 3) (\<lambda>c.
        rbind (Intn 3) (\<lambda>p.
        rreturn (params\<lparr>a_bitrate := 70 + b, a_compression := 8 + c,
                        a_silencePadding := 1 + p\<rparr>))))
      else if level = ''moderate'' then
        rbind (Intn 5) (\<lambda>b.
        rbind (Intn 3) (\<lambda>c.
        rbind (Intn 3) (\<lambda>p.
        rbind (Intn 20) (\<lambda>s.
        rreturn (params\<lparr>a_bitrate := 70 + b, a_compression := 8 + c,
                        a_silencePadding := 1 + p,
                        a_pitchShift := 1 + of_int (s - 10) / 10000\<rparr>)))))
      else if level = ''paranoid'' then
        rbind (Intn 9) (\<lambda>b.
        rbind (Intn 4) (\<lambda>c.
        rbind (Intn 5) (\<lambda>p.
        rbind (Intn 40) (\<lambda>s.
        rbind (Intn 10) (\<lambda>n.
        rreturn (params\<lparr>a_bitrate := 68 + b, a_compression := 7 + c,
                        a_silencePadding := 1 + p,
                        a_pitchShift := 1 + of_int (s - 20) / 10000,
                        a_addNoise := True,
                        a_noiseLevel := 5 / 10000 + of_int n / 100000\<rparr>))))))
      else rreturn (params\<lparr>a_bitrate := 72, a_compression := 10\<rparr>))"

definition AudioConverter_Convert ::
  "env \<Rightarrow> byte list \<Rightarrow> string \<Rightarrow> string \<Rightarrow> world \<Rightarrow> failure option \<times> world" where
  "AudioConverter_Convert E inputData level outputPath w =
     (if inputData = [] then (Some (Error ''empty input data''), w)
      else
        (case AudioConverter_getRandomizedParams level (w_rng w) of
           (Inl e, g) \<Rightarrow> (Some e, w\<lparr>w_rng := g\<rparr>)
         | (Inr params, g) \<Rightarrow>
             transcode_to E (AudioJob params (int (length inputData) div 1000)) inputData
               outputPath (w\<lparr>w_rng := g\<rparr>)))"

subsection \<open>Image converter\<close>

definition ImageConverter_getRandomizedParams :: "string \<Rightarrow> string \<Rightarrow> imageParams rand" where
  "ImageConverter_getRandomizedParams level format =
     (let params = \<lparr>i_quality = 90, i_compressionLevel = 6, i_jpegQScale = 3,
                     i_addNoise = False, i_noiseStrength = 0, i_colorAdjust = False,
                     i_brightness = 0, i_contrast = 0, i_addBlur = False, i_blurAmount = 0\<rparr>;
          isPNG = (format = ''png'') in
      if level = ''basic'' then
        rbind (Intn 5) (\<lambda>q.
        rbind (Intn 3) (\<lambda>c.
        rbind (Intn 2) (\<lambda>j.
        rreturn (params\<lparr>i_quality := 88 + q, i_compressionLevel := 5 + c,
                        i_jpegQScale := 3 + j\<rparr>))))
      else if level = ''moderate'' then
        rbind (Intn 5) (\<lambda>q.
        rbind (Intn 3) (\<lambda>c.
        rbind (Intn 2) (\<lambda>j.
        rbind (if isPNG then rbind (Intn 2) (\<lambda>n. rreturn (1 + n))
               else rbind (Intn 3) (\<lambda>n. rreturn (2 + n))) (\<lambda>ns.
        rbind (Intn 3) (\<lambda>b.
        rbind (Intn 3) (\<lambda>ct.
        rreturn (params\<lparr>i_quality := 88 + q, i_compressionLevel := 5 + c,
                        i_jpegQScale := 3 + j,
                        i_addNoise := True, i_noiseStrength := ns,
                        i_colorAdjust := True,
                        i_brightness := of_int (b - 1) / 1000,
                        i_contrast := 1 + of_int (ct - 1) / 1000\<rparr>)))))))
      else if level = ''paranoid'' then
        rbind (Intn 8) (\<lambda>q.
        rbind (Intn 4) (\<lambda>c.
        rbind (Intn 3) (\<lambda>j.
        rbind (if isPNG then rbind (Intn 3) (\<lambda>n. rreturn (1 + n))
               else rbind (Intn 5) (\<lambda>n. rreturn (3 + n))) (\<lambda>ns.
        rbind (Intn 5) (\<lambda>b.
        rbind (Intn 5) (\<lambda>ct.
        rbind (Intn 5) (\<lambda>bl.
        rreturn (params\<lparr>i_quality := 85 + q, i_compressionLevel := 4 + c,
                        i_jpegQScale := 2 + j,
                        i_addNoise := True, i_noiseStrength := ns,
                        i_colorAdjust := True,
                        i_brightness := of_int (b - 2) / 1000,
                        i_contrast := 1 + of_int (ct - 2) / 1000,
                        i_addBlur := True,
                        i_blurAmount := 1 / 10 + of_int bl / 100\<rparr>))))))))
      else rreturn (params\<lparr>i_quality := 90, i_compressionLevel := 6, i_jpegQScale := 3\<rparr>))"

definition detectFormat :: "byte list \<Rightarrow> string" where
  "detectFormat bs =
     (if length bs < 12 then ''unknown''
      else if take 8 bs = [0x89, 0x50, 0x4E, 0x47, 0x0D, 0x0A, 0x1A, 0x0A] then ''png''
      else if take 2 bs = [0xFF, 0xD8] then ''jpeg''
      else if take 4 bs = [0x52, 0x49, 0x46, 0x46]
              \<and> take 4 (drop 8 bs) = [0x57, 0x45, 0x42, 0x50] then ''webp''
      else ''unknown'')"

text \<open>
  \<^verbatim>\<open>filepath.Ext\<close>: the suffix of the path from the last dot of its last element, empty
  if that element has no dot.  \<^verbatim>\<open>strings.TrimSuffix\<close>.
\<close>

definition filepath_Ext :: "string \<Rightarrow> string" where
  "filepath_Ext path =
     (let plain = (\<lambda>c. c \<noteq> CHR ''.'' \<and> c \<noteq> CHR ''/'') in
      case dropWhile plain (rev path) of
        [] \<Rightarrow> []
      | c # _ \<Rightarrow> if c = CHR ''.'' then CHR ''.'' # rev (takeWhile plain (rev path)) else [])"

definition TrimSuffix :: "string \<Rightarrow> string \<Rightarrow> string" where
  "TrimSuffix s suf = (if suffix suf s then take (length s - length suf) s else s)"

definition adjustOutputPath :: "string \<Rightarrow> string \<Rightarrow> string" where
  "adjustOutputPath path format =
     (let ext = filepath_Ext path;
          base = TrimSuffix path ext in
      if format = ''png'' then base @ ''.png''
      else if format = ''webp'' then base @ ''.webp''
      else base @ ''.jpg'')"

definition ImageConverter_Convert ::
  "env \<Rightarrow> byte list \<Rightarrow> string \<Rightarrow> string \<Rightarrow> world \<Rightarrow> failure option \<times> world" where
  "ImageConverter_Convert E inputData level outputPath w =
     (if inputData = [] then (Some (Error ''empty input data''), w)
      else
        (let inputFormat = detectFormat inputData in
         case ImageConverter_getRandomizedParams level inputFormat (w_rng w) of
           (Inl e, g) \<Rightarrow> (Some e, w\<lparr>w_rng := g\<rparr>)
         | (Inr params, g) \<Rightarrow>
             (let outputFormat =
                    (if inputFormat \<noteq> ''png'' \<and> inputFormat \<noteq> ''jpeg''
                        \<and> inputFormat \<noteq> ''jpg'' \<and> inputFormat \<noteq> ''webp''
                     then ''jpeg'' else inputFormat);
                  finalPath = adjustOutputPath outputPath outputFormat
              in transcode_to E (ImageJob params outputFormat) inputData finalPath
                   (w\<lparr>w_rng := g\<rparr>))))"

subsection \<open>Video converter\<close>

text \<open>\<^verbatim>\<open>getVideoBitrate\<close>: the probed bits per second divided by 1000, truncating.\<close>

definition getVideoBitrate :: "env \<Rightarrow> byte list \<Rightarrow> int option" where
  "getVideoBitrate E inputData =
     (case ffprobe E inputData of
        None \<Rightarrow> None
      | Some bitrate \<Rightarrow>
          Some (if bitrate \<ge> 0 then bitrate div 1000 else - ((- bitrate) div 1000)))"

definition VideoConverter_Convert ::
  "env \<Rightarrow> byte list \<Rightarrow> string \<Rightarrow> string \<Rightarrow> world \<Rightarrow> failure option \<times> world" where
  "VideoConverter_Convert E inputData level outputPath w =
     (if inputData = [] then (Some (Error ''empty input data''), w)
      else
        (let originalBitrate =
               (case getVideoBitrate E inputData of None \<Rightarrow> 2000 | Some b \<Rightarrow> b) in
         case VideoConverter_getRandomizedParams level originalBitrate (w_rng w) of
           (Inl e, g) \<Rightarrow> (Some e, w\<lparr>w_rng := g\<rparr>)
         | (Inr params, g) \<Rightarrow>
             (case (if level = ''none'' \<or> level = ''basic'' then rreturn None g
                    else rbind (Intn 16) (\<lambda>a. rreturn (Some (128 + a))) g) of
                (Inl e, g') \<Rightarrow> (Some e, w\<lparr>w_rng := g'\<rparr>)
              | (Inr audioBitrate, g') \<Rightarrow>
                  transcode_to E (VideoJob params audioBitrate) inputData outputPath
                    (w\<lparr>w_rng := g'\<rparr>))))"

section \<open>Request handler (package handlers)\<close>

record ConvertRequest =
  req_DeviceID :: string
  req_URL :: string
  req_MediaType :: string
  req_AntiFingerprintLevel :: string
  req_IsBase64 :: bool

text \<open>
  \<^verbatim>\<open>ConvertResponse\<close>.  The two timestamps are instants here (\<open>None\<close> for the empty
  string, which the JSON encoding omits) and the size increase is the exact
  percentage; their formatting as strings, and the processing time read off the
  clock, are left out.
\<close>

record ConvertResponse =
  r_Success :: bool
  r_ProcessedPath :: string
  r_CacheHit :: bool
  r_MediaType :: string
  r_OriginalSize :: int
  r_ProcessedSize :: int
  r_SizeIncrease :: "rat option"
  r_CacheExpires :: "int option"
  r_FileExpires :: "int option"

text \<open>
  What the handler answers: the JSON of a \<^verbatim>\<open>ConvertResponse\<close> with status 200, an
  \<^verbatim>\<open>ErrorResponse\<close> with its status and error text, the file streamed with a content
  type, or a panic (which the recover middleware turns into a status 500).
\<close>

datatype reply =
    Json ConvertResponse
  | Failed int string
  | SendFile string string
  | Panicked string

record ConverterHandler =
  h_downloader :: Downloader
  h_requestTimeout :: int
  h_cacheDir :: string

definition NewConverterHandler :: "Downloader \<Rightarrow> int \<Rightarrow> string \<Rightarrow> ConverterHandler" where
  "NewConverterHandler downloader requestTimeout dir =
     \<lparr>h_downloader = downloader,
      h_requestTimeout = (if requestTimeout \<le> 0 then 5 * Minute else requestTimeout),
      h_cacheDir = dir\<rparr>"

definition detectMediaType :: "env \<Rightarrow> string \<Rightarrow> string" where
  "detectMediaType E url =
     (let urlLower = toLower E url in
      if suffix ''.mp3'' urlLower \<or> suffix ''.opus'' urlLower \<or> suffix ''.ogg'' urlLower
         \<or> suffix ''.m4a'' urlLower \<or> suffix ''.wav'' urlLower \<or> suffix ''.aac'' urlLower
      then ''audio''
      else if suffix ''.jpg'' urlLower \<or> suffix ''.jpeg'' urlLower \<or> suffix ''.png'' urlLower
         \<or> suffix ''.webp'' urlLower \<or> suffix ''.gif'' urlLower
      then ''image''
      else if suffix ''.mp4'' urlLower \<or> suffix ''.avi'' urlLower \<or> suffix ''.mov'' urlLower
         \<or> suffix ''.mkv'' urlLower \<or> suffix ''.webm'' urlLower \<or> suffix ''.flv'' urlLower
      then ''video''
      else [])"

definition getDefaultAFLevel :: "string \<Rightarrow> string" where
  "getDefaultAFLevel mediaType =
     (if mediaType = ''audio'' then ''moderate''
      else if mediaType = ''image'' then ''moderate''
      else if mediaType = ''video'' then ''basic''
      else ''moderate'')"

definition getMediaSubdir :: "string \<Rightarrow> string" where
  "getMediaSubdir mediaType =
     (if mediaType = ''audio'' then ''audios''
      else if mediaType = ''image'' then ''imagens''
      else if mediaType = ''video'' then ''videos''
      else ''outros'')"

definition sendFile :: "string \<Rightarrow> string \<Rightarrow> reply" where
  "sendFile filePath mediaType =
     SendFile filePath
       (if mediaType = ''audio'' then ''audio/ogg''
        else if mediaType = ''image'' then
          (if suffix ''.jpg'' filePath \<or> suffix ''.jpeg'' filePath then ''image/jpeg''
           else ''image/png'')
        else if mediaType = ''video'' then ''video/mp4''
        else ''application/octet-stream'')"

text \<open>
  The readings of \<^verbatim>\<open>time.Now()\<close> a request takes that reach its result: in the first
  \<^verbatim>\<open>Get\<close>, in \<^verbatim>\<open>GenerateOutputPath\<close>, in \<^verbatim>\<open>Set\<close> and in the second \<^verbatim>\<open>Get\<close>.  On a
  running process each is no earlier than the one before.
\<close>

record readings =
  t_lookup :: int
  t_path :: int
  t_insert :: int
  t_relookup :: int

text \<open>
  \<^verbatim>\<open>ConverterHandler.Convert\<close> is one function in the source; it is cut here into the
  stages it runs one after the other.  First, after the log line \<^verbatim>\<open>CACHE MISS\<close>,
  the input is decoded or downloaded (\<open>Inl\<close>: the answer that ends the request).
\<close>

definition fetch_input ::
  "env \<Rightarrow> ConverterHandler \<Rightarrow> ConvertRequest \<Rightarrow> world \<Rightarrow> (reply + byte list) \<times> world" where
  "fetch_input E h req w =
     (if req_IsBase64 req then
        (case b64decode E (req_URL req) of
           None \<Rightarrow> (Inl (Failed 400 ''Failed to decode base64 data''), w)
         | Some inputData \<Rightarrow> (Inr inputData, w))
      else
        (case Download (h_downloader h) (http E) (w_pool w) (req_URL req) of
           (Inl (Panic m), bp) \<Rightarrow> (Inl (Panicked m), w\<lparr>w_pool := bp\<rparr>)
         | (Inl (Error m), bp) \<Rightarrow>
             (Inl (Failed 400 ''Failed to download file''), w\<lparr>w_pool := bp\<rparr>)
         | (Inr inputData, bp) \<Rightarrow> (Inr inputData, w\<lparr>w_pool := bp\<rparr>)))"

text \<open>The switch that calls the converter of the media type (one of the three).\<close>

definition dispatch_Convert ::
  "env \<Rightarrow> ConvertRequest \<Rightarrow> byte list \<Rightarrow> string \<Rightarrow> world \<Rightarrow> failure option \<times> world" where
  "dispatch_Convert E req inputData outputPath w =
     (if req_MediaType req = ''audio'' then
        AudioConverter_Convert E inputData (req_AntiFingerprintLevel req) outputPath w
      else if req_MediaType req = ''image'' then
        ImageConverter_Convert E inputData (req_AntiFingerprintLevel req) outputPath w
      else
        VideoConverter_Convert E inputData (req_AntiFingerprintLevel req) outputPath w)"

text \<open>
  After a successful \<^verbatim>\<open>os.Stat\<close> of the output path (\<open>processedSize\<close> is the size it
  reports): \<^verbatim>\<open>Set\<close>, the second \<^verbatim>\<open>Get\<close> for the expiration times, and the answer.
\<close>

definition respond_processed ::
  "env \<Rightarrow> readings \<Rightarrow> ConvertRequest \<Rightarrow> bool \<Rightarrow> int \<Rightarrow> string \<Rightarrow> int \<Rightarrow> world
     \<Rightarrow> reply \<times> world" where
  "respond_processed E clk req downloadMode originalSize outputPath processedSize w =
     (let sizeIncrease =
            (if originalSize = 0 then None
             else Some (of_int (processedSize - originalSize) / of_int originalSize * 100));
          (dc1, g) = DeviceCache_Set (hashURL E) (t_insert clk) (w_cache w)
                       (req_DeviceID req) (req_URL req) outputPath (req_MediaType req)
                       processedSize;
          (cacheEntry, dc2) = DeviceCache_Get (hashURL E) (t_relookup clk) dc1
                                (req_DeviceID req) (req_URL req);
          w' = w\<lparr>w_cache := dc2, w_started := w_started w @ [g]\<rparr>
      in
      if downloadMode then (sendFile outputPath (req_MediaType req), w')
      else
        (Json \<lparr>r_Success = True,
               r_ProcessedPath = outputPath,
               r_CacheHit = False,
               r_MediaType = req_MediaType req,
               r_OriginalSize = originalSize,
               r_ProcessedSize = processedSize,
               r_SizeIncrease = sizeIncrease,
               r_CacheExpires = map_option CacheExpires cacheEntry,
               r_FileExpires = map_option FileExpires cacheEntry\<rparr>,
         w'))"

text \<open>
  The whole of the handler after a cache miss: fetch, output directory, output path,
  conversion, \<^verbatim>\<open>os.Stat\<close> of the output path (it succeeds when a file is there), and
  the stage above.
\<close>

definition Convert_process ::
  "env \<Rightarrow> ConverterHandler \<Rightarrow> readings \<Rightarrow> ConvertRequest \<Rightarrow> bool \<Rightarrow> world \<Rightarrow> reply \<times> world" where
  "Convert_process E h clk req downloadMode w =
     (let urlHash = hashURL E (req_URL req) in
      case fetch_input E h req w of
        (Inl r, w1) \<Rightarrow> (r, w1)
      | (Inr inputData, w1) \<Rightarrow>
          (let originalSize = int (length inputData);
               mediaCacheDir = joinPath E (h_cacheDir h) (getMediaSubdir (req_MediaType req))
           in
           if \<not> mkdirOk E mediaCacheDir then
             (Failed 500 ''Failed to create media cache directory'', w1)
           else if req_MediaType req \<noteq> ''audio'' \<and> req_MediaType req \<noteq> ''image''
                   \<and> req_MediaType req \<noteq> ''video'' then
             (Failed 400 ''Unsupported media_type'', w1)
           else
             (let ext = (if req_MediaType req = ''audio'' then ''.opus''
                         else if req_MediaType req = ''image'' then ''.jpg'' else ''.mp4'');
                  outputPath = GenerateOutputPath E ext (t_path clk) mediaCacheDir
                                 (req_DeviceID req) urlHash
              in case dispatch_Convert E req inputData outputPath w1 of
                   (Some (Panic m), w2) \<Rightarrow> (Panicked m, w2)
                 | (Some (Error m), w2) \<Rightarrow> (Failed 500 ''Conversion failed'', w2)
                 | (None, w2) \<Rightarrow>
                     (case w_files w2 outputPath of
                        None \<Rightarrow> (Failed 500 ''Failed to stat output file'', w2)
                      | Some written \<Rightarrow>
                          respond_processed E clk req downloadMode originalSize outputPath
                            (int (length written)) w2))))"

text \<open>
  \<^verbatim>\<open>ConverterHandler.Convert\<close>.  \<open>body\<close> is the request body as bound from JSON
  (\<open>None\<close>: it could not be bound) and \<open>downloadMode\<close> says whether the query has
  \<^verbatim>\<open>download=true\<close>.
\<close>

definition Convert ::
  "env \<Rightarrow> ConverterHandler \<Rightarrow> readings \<Rightarrow> ConvertRequest option \<Rightarrow> bool \<Rightarrow> world
     \<Rightarrow> reply \<times> world" where
  "Convert E h clk body downloadMode w =
     (case body of
        None \<Rightarrow> (Failed 400 ''Invalid request body'', w)
      | Some req0 \<Rightarrow>
          if req_DeviceID req0 = [] then (Failed 400 ''device_id is required'', w)
          else if req_URL req0 = [] then (Failed 400 ''url is required'', w)
          else
            (let req1 = (if req_MediaType req0 = []
                         then req0\<lparr>req_MediaType := detectMediaType E (req_URL req0)\<rparr>
                         else req0)
             in
             if req_MediaType req1 = [] then
               (Failed 400 ''Could not detect media type from URL. Please provide media_type (audio/image/video)'', w)
             else
               (let req = (if req_AntiFingerprintLevel req1 = []
                           then req1\<lparr>req_AntiFingerprintLevel :=
                                        getDefaultAFLevel (req_MediaType req1)\<rparr>
                           else req1);
                    (cachedEntry, dc1) = DeviceCache_Get (hashURL E) (t_lookup clk) (w_cache w)
                                           (req_DeviceID req) (req_URL req);
                    w1 = w\<lparr>w_cache := dc1\<rparr>
                in case cachedEntry of
                     None \<Rightarrow> Convert_process E h clk req downloadMode w1
                   | Some e \<Rightarrow>
                       (case w_files w1 (ProcessedPath e) of
                          None \<Rightarrow> Convert_process E h clk req downloadMode w1
                        | Some stored \<Rightarrow>
                            if downloadMode then (sendFile (ProcessedPath e) (MediaType e), w1)
                            else
                              (Json \<lparr>r_Success = True,
                                     r_ProcessedPath = ProcessedPath e,
                                     r_CacheHit = True,
                                     r_MediaType = MediaType e,
                                     r_OriginalSize = 0,
                                     r_ProcessedSize = int (length stored),
                                     r_SizeIncrease = None,
                                     r_CacheExpires = Some (CacheExpires e),
                                     r_FileExpires = Some (FileExpires e)\<rparr>,
                               w1)))))"

section \<open>Concrete inputs\<close>

text \<open>
  The inputs at which the properties below are evaluated.  \<open>png_1x1\<close> is a PNG file of
  one pixel and \<open>png_b64\<close> its base64 text; \<open>mp3_bytes\<close> stands for a small audio file.
  In \<open>env_fix\<close> the digest of each of the two request URLs is its MD5, the host
  answers the audio URL with status 200 and no \<^verbatim>\<open>Content-Length\<close>, the transcoder
  succeeds and writes its input back, and every directory and file can be written.
\<close>

definition png_1x1 :: "byte list" where
  "png_1x1 =
     [0x89, 0x50, 0x4E, 0x47, 0x0D, 0x0A, 0x1A, 0x0A, 0x00, 0x00, 0x00, 0x0D, 0x49, 0x48,
      0x44, 0x52, 0x00, 0x00, 0x00, 0x01, 0x00, 0x00, 0x00, 0x01, 0x08, 0x06, 0x00, 0x00,
      0x00, 0x1F, 0x15, 0xC4, 0x89, 0x00, 0x00, 0x00, 0x0D, 0x49, 0x44, 0x41, 0x54, 0x78,
      0xDA, 0x63, 0x64, 0x60, 0xF8, 0x5F, 0x0F, 0x00, 0x02, 0x87, 0x01, 0x80, 0xEB, 0x47,
      0xBA, 0x92, 0x00, 0x00, 0x00, 0x00, 0x49, 0x45, 0x4E, 0x44, 0xAE, 0x42, 0x60, 0x82]"

definition png_b64 :: string where
  "png_b64 =
     ''iVBORw0KGgoAAAANSUhEUgAAAAEAAAABCAYAAAAfFcSJAAAADUlEQVR42mNkYPhfDwAChwGA60e6kgAAAABJRU5ErkJggg==''"

definition mp3_url :: string where
  "mp3_url = ''http://host/a.mp3''"

definition mp3_bytes :: "byte list" where
  "mp3_bytes = [0x49, 0x44, 0x33, 0x03, 0x00]"

definition env_fix :: env where
  "env_fix =
     \<lparr>hashURL = (\<lambda>u. if u = png_b64 then ''d74c3b09387c6218d1d88b7418cb4aca''
                       else if u = mp3_url then ''dcce78aa91a855b3e2160904beeddced''
                       else ''00000000000000000000000000000000''),
      toLower = (\<lambda>s. s),
      joinPath = (\<lambda>dir name. dir @ ''/'' @ name),
      b64decode = (\<lambda>s. if s = png_b64 then Some png_1x1 else None),
      http = (\<lambda>u. if u = mp3_url
                     then Responded \<lparr>StatusCode = 200, ContentLength = - 1, Body = mp3_bytes\<rparr>
                     else DoError),
      ffmpeg = (\<lambda>j input. Some input),
      ffprobe = (\<lambda>input. None),
      mkdirOk = (\<lambda>dir. True),
      writeOk = (\<lambda>path. True)\<rparr>"

definition handler_fix :: ConverterHandler where
  "handler_fix = NewConverterHandler (NewDownloader 0 0) 0 ''/tmp/media-cache''"

text \<open>
  A fresh process: an empty cache with the given TTL arguments, no files, a pool of
  two buffers of eight bytes, no goroutine started.
\<close>

definition world_fix :: "int \<Rightarrow> int \<Rightarrow> world" where
  "world_fix cTTL fTTL =
     \<lparr>w_cache = NewDeviceCache ''/tmp/media-cache'' cTTL fTTL,
      w_files = Map.empty,
      w_pool = \<lparr>pool = replicate 2 \<lparr>arr = replicate 8 0, len = 8\<rparr>, bufsize = 8,
                allocated = 2, inUse = 0, hits = 0, misses = 0\<rparr>,
      w_rng = \<lparr>draws = (\<lambda>i. 0), drawn = 0\<rparr>,
      w_started = []\<rparr>"

definition png_request :: ConvertRequest where
  "png_request =
     \<lparr>req_DeviceID = ''d2'', req_URL = png_b64, req_MediaType = ''image'',
      req_AntiFingerprintLevel = ''none'', req_IsBase64 = True\<rparr>"


text \<open>
  Clock readings of a request that starts 1700000000 seconds into the clock and
  inserts one second later; the second lookup follows the insertion after \<open>delay\<close>
  nanoseconds.
\<close>

definition readings_fix :: "int \<Rightarrow> readings" where
  "readings_fix delay =
     \<lparr>t_lookup = 1700000000 * Second, t_path = 1700000000 * Second,
      t_insert = 1700000001 * Second, t_relookup = 1700000001 * Second + delay\<rparr>"

text \<open>A pool built by \<^verbatim>\<open>NewBufferPool\<close> and then put through a sequence of operations.\<close>

definition pool_trace :: "int \<Rightarrow> int \<Rightarrow> pool_op list \<Rightarrow> failure + pool_run" where
  "pool_trace count size0 ops =
     (case NewBufferPool count size0 of
        Inl e \<Rightarrow> Inl e
      | Inr bp \<Rightarrow> pool_steps (pool_start bp) ops)"

text \<open>
  A download from a host that answers with status 200, the given \<^verbatim>\<open>ContentLength\<close>
  and body, by a downloader with the given size cap and a fresh pool of \<open>count\<close>
  buffers of \<open>size0\<close> bytes: the result, and the pool's \<open>hits\<close> and \<open>inUse\<close>
  afterwards.
\<close>

definition download_fix ::
  "int \<Rightarrow> int \<Rightarrow> int \<Rightarrow> int \<Rightarrow> byte list \<Rightarrow> (failure + byte list) \<times> int \<times> int" where
  "download_fix maxSize0 count size0 contentLength body =
     (case NewBufferPool count size0 of
        Inl e \<Rightarrow> (Inl e, 0, 0)
      | Inr bp \<Rightarrow>
          (case Download (NewDownloader maxSize0 0)
                  (\<lambda>u. Responded \<lparr>StatusCode = 200, ContentLength = contentLength,
                                     Body = body\<rparr>)
                  bp ''http://host/file.bin'' of
             (r, bp') \<Rightarrow> (r, hits bp', inUse bp')))"

text \<open>
  A cache built with the given TTL arguments into which the converted audio file was
  inserted at clock reading 0.
\<close>

definition mp3_path :: string where
  "mp3_path = ''/tmp/media-cache/audios/d1_dcce78aa_0.opus''"

definition one_entry_cache :: "int \<Rightarrow> int \<Rightarrow> DeviceCache" where
  "one_entry_cache cTTL fTTL =
     fst (DeviceCache_Set (hashURL env_fix) 0 (NewDeviceCache ''/tmp/media-cache'' cTTL fTTL)
            ''d1'' mp3_url mp3_path ''audio'' 5)"

text \<open>
  The same URL converted twice for one device, 29 minutes apart (the first entry's
  cache TTL of 28 minutes has run out, its file TTL of 30 minutes has not).
\<close>

definition replaced_entry_events :: "(int \<times> event) list" where
  "replaced_entry_events =
     [(0, Ev_Set ''d1'' mp3_url mp3_path ''audio'' 5),
      (29 * Minute,
       Ev_Set ''d1'' mp3_url ''/tmp/media-cache/audios/d1_dcce78aa_1740.opus'' ''audio'' 5)]"

section \<open>Properties of the device cache\<close>

lemma Get_keeps_TTLs:
  "cacheTTL (snd (DeviceCache_Get H now dc d u)) = cacheTTL dc"
  "fileTTL (snd (DeviceCache_Get H now dc d u)) = fileTTL dc"
  by (simp_all add: DeviceCache_Get_def Let_def recordHit_def recordMiss_def
        split: option.splits)

lemma Set_keeps_TTLs:
  "cacheTTL (fst (DeviceCache_Set H now dc d u p m sz)) = cacheTTL dc"
  "fileTTL (fst (DeviceCache_Set H now dc d u p m sz)) = fileTTL dc"
  by (simp_all add: DeviceCache_Set_def Let_def)

lemma scheduleFileDeletion_keeps_TTLs:
  "cacheTTL (fst (scheduleFileDeletion g dc fs)) = cacheTTL dc"
  "fileTTL (fst (scheduleFileDeletion g dc fs)) = fileTTL dc"
  by (simp_all add: scheduleFileDeletion_def Let_def split: option.splits)

lemma cleanup_keeps_TTLs:
  "cacheTTL (fst (cleanup now dc)) = cacheTTL dc"
  "fileTTL (fst (cleanup now dc)) = fileTTL dc"
  by (simp_all add: cleanup_def Let_def)

lemma step_keeps_TTLs:
  assumes "step H s e = Some s'"
  shows "cacheTTL (sys_cache s') = cacheTTL (sys_cache s) \<and>
         fileTTL (sys_cache s') = fileTTL (sys_cache s)"
proof -
  obtain now ev where e: "e = (now, ev)" by (cases e)
  show ?thesis
  proof (cases ev)
    case (Ev_Set d u p m sz)
    with assms e Set_keeps_TTLs[of H now "sys_cache s" d u p m sz] show ?thesis
      by (auto split: if_splits prod.splits)
  next
    case (Ev_Get d u)
    with assms e show ?thesis
      by (auto simp: Get_keeps_TTLs split: if_splits)
  next
    case (Ev_Wake i)
    with assms e scheduleFileDeletion_keeps_TTLs[of "sleeping s ! i" "sys_cache s" "sys_files s"]
    show ?thesis
      by (auto simp: Let_def split: if_splits prod.splits)
  next
    case Ev_Cleanup
    with assms e cleanup_keeps_TTLs[of now "sys_cache s"] show ?thesis
      by (auto split: if_splits prod.splits)
  qed
qed

lemma run_keeps_TTLs:
  "run H s evs = Some s' \<Longrightarrow>
   cacheTTL (sys_cache s') = cacheTTL (sys_cache s) \<and>
   fileTTL (sys_cache s') = fileTTL (sys_cache s)"
proof (induction evs arbitrary: s)
  case Nil
  then show ?case by simp
next
  case (Cons e evs)
  then obtain s1 where s1: "step H s e = Some s1" "run H s1 evs = Some s'"
    by (auto split: option.splits)
  from step_keeps_TTLs[OF s1(1)] Cons.IH[OF s1(2)] show ?case by simp
qed

lemma lookup_Set_same:
  "lookup (fst (DeviceCache_Set H now dc d u p m sz)) d (H u) =
     Some \<lparr>ProcessedPath = p, CacheExpires = now + cacheTTL dc, FileExpires = now + fileTTL dc,
            Created = now, Uses = 0, Size = sz, MediaType = m, URL = u\<rparr>"
  by (simp add: lookup_def DeviceCache_Set_def Let_def update_conv')

lemma lookup_one_entry_cache:
  "lookup (one_entry_cache cTTL fTTL) ''d1'' (hashURL env_fix mp3_url) =
     Some \<lparr>ProcessedPath = mp3_path,
            CacheExpires = (if cTTL \<le> 0 then 28 * Minute else cTTL),
            FileExpires = (if fTTL \<le> 0 then 30 * Minute else fTTL),
            Created = 0, Uses = 0, Size = 5, MediaType = ''audio'', URL = mp3_url\<rparr>"
  by (simp add: one_entry_cache_def lookup_Set_same NewDeviceCache_def)

lemma Get_one_entry_cache:
  "now \<le> (if cTTL \<le> 0 then 28 * Minute else cTTL) \<Longrightarrow>
   fst (DeviceCache_Get (hashURL env_fix) now (one_entry_cache cTTL fTTL) ''d1'' mp3_url) =
     Some \<lparr>ProcessedPath = mp3_path,
            CacheExpires = (if cTTL \<le> 0 then 28 * Minute else cTTL),
            FileExpires = (if fTTL \<le> 0 then 30 * Minute else fTTL),
            Created = 0, Uses = 1, Size = 5, MediaType = ''audio'', URL = mp3_url\<rparr>"
  using lookup_one_entry_cache[of cTTL fTTL]
  by (auto simp: DeviceCache_Get_def lookup_def Let_def split: option.splits)

text \<open>
  Claim C6, as the code has it: an entry that \<^verbatim>\<open>Get\<close> returns has not expired at the
  time of the lookup, that is, the lookup time is at or before the entry's
  \<^verbatim>\<open>CacheExpires\<close>.  (\<^verbatim>\<open>Get\<close> misses only when \<^verbatim>\<open>time.Now().After(entry.CacheExpires)\<close>.)
\<close>

theorem Get_hit_not_after_expiry:
  "DeviceCache_Get H now dc d u = (Some e, dc') \<Longrightarrow> now \<le> CacheExpires e"
  by (auto simp: DeviceCache_Get_def Let_def split: option.splits if_splits)

text \<open>
  The theorem at work: a lookup 28 minutes after an insertion into a cache with the
  default TTLs.
\<close>

theorem Get_hit_not_after_expiry_witness:
  "DeviceCache_Get (hashURL env_fix) (28 * Minute) (one_entry_cache 0 0) ''d1'' mp3_url
     = (Some \<lparr>ProcessedPath = mp3_path, CacheExpires = 28 * Minute,
              FileExpires = 30 * Minute, Created = 0, Uses = 1, Size = 5,
              MediaType = ''audio'', URL = mp3_url\<rparr>,
        snd (DeviceCache_Get (hashURL env_fix) (28 * Minute) (one_entry_cache 0 0) ''d1'' mp3_url))
   \<and> 28 * Minute \<le> CacheExpires \<lparr>ProcessedPath = mp3_path, CacheExpires = 28 * Minute,
              FileExpires = 30 * Minute, Created = 0, Uses = 1, Size = 5,
              MediaType = ''audio'', URL = mp3_url\<rparr>"
proof -
  have g: "DeviceCache_Get (hashURL env_fix) (28 * Minute) (one_entry_cache 0 0) ''d1'' mp3_url
     = (Some \<lparr>ProcessedPath = mp3_path, CacheExpires = 28 * Minute,
              FileExpires = 30 * Minute, Created = 0, Uses = 1, Size = 5,
              MediaType = ''audio'', URL = mp3_url\<rparr>,
        snd (DeviceCache_Get (hashURL env_fix) (28 * Minute) (one_entry_cache 0 0) ''d1'' mp3_url))"
    using Get_one_entry_cache[of "28 * Minute" 0 0] by (simp add: prod_eq_iff)
  from Get_hit_not_after_expiry[OF g] g show ?thesis by blast
qed

text \<open>
  Against claim C6 as stated (the lookup time is strictly before \<^verbatim>\<open>CacheExpires\<close>): a
  lookup at exactly the expiration time, 28 minutes after the insertion, returns the
  entry, whose \<^verbatim>\<open>CacheExpires\<close> is the lookup time itself.
\<close>

theorem Get_at_expiry_is_hit:
  "map_option CacheExpires
     (fst (DeviceCache_Get (hashURL env_fix) (28 * Minute) (one_entry_cache 0 0) ''d1'' mp3_url))
     = Some (28 * Minute)
   \<and> \<not> (28 * Minute < 28 * Minute)"
  using Get_one_entry_cache[of "28 * Minute" 0 0] by simp

text \<open>
  Claim C7, as the code has it: in every state the cache reaches from
  \<^verbatim>\<open>NewDeviceCache(dir, cTTL, fTTL)\<close>, the entry a \<^verbatim>\<open>Set\<close> creates has
  \<^verbatim>\<open>FileExpires - CacheExpires\<close> equal to the difference of the two TTLs the constructor
  kept (each argument, or its default when the argument is not positive), and that
  difference is positive exactly when the kept file TTL exceeds the kept cache TTL.
\<close>

theorem Set_expiry_gap:
  assumes "run H (boot (NewDeviceCache dir cTTL fTTL) fs) evs = Some s"
    and "DeviceCache_Set H now (sys_cache s) d u p m sz = (dc', g)"
  shows "\<exists>e. lookup dc' d (H u) = Some e
           \<and> FileExpires e - CacheExpires e =
               (if fTTL \<le> 0 then 30 * Minute else fTTL) - (if cTTL \<le> 0 then 28 * Minute else cTTL)
           \<and> (0 < FileExpires e - CacheExpires e \<longleftrightarrow>
               (if cTTL \<le> 0 then 28 * Minute else cTTL) < (if fTTL \<le> 0 then 30 * Minute else fTTL))"
proof -
  from run_keeps_TTLs[OF assms(1)]
  have t: "cacheTTL (sys_cache s) = (if cTTL \<le> 0 then 28 * Minute else cTTL)"
          "fileTTL (sys_cache s) = (if fTTL \<le> 0 then 30 * Minute else fTTL)"
    by (simp_all add: boot_def NewDeviceCache_def)
  from assms(2) have "dc' = fst (DeviceCache_Set H now (sys_cache s) d u p m sz)" by simp
  then have "lookup dc' d (H u) =
     Some \<lparr>ProcessedPath = p, CacheExpires = now + cacheTTL (sys_cache s),
            FileExpires = now + fileTTL (sys_cache s),
            Created = now, Uses = 0, Size = sz, MediaType = m, URL = u\<rparr>"
    by (simp only: lookup_Set_same)
  then show ?thesis
    by (simp only: t) auto
qed

text \<open>The theorem at work: the first insertion into a cache with the default TTLs.\<close>

theorem Set_expiry_gap_witness:
  "run (hashURL env_fix) (boot (NewDeviceCache ''/tmp/media-cache'' 0 0) Map.empty) []
     = Some (boot (NewDeviceCache ''/tmp/media-cache'' 0 0) Map.empty)
   \<and> DeviceCache_Set (hashURL env_fix) 0
        (sys_cache (boot (NewDeviceCache ''/tmp/media-cache'' 0 0) Map.empty))
        ''d1'' mp3_url mp3_path ''audio'' 5
       = (one_entry_cache 0 0,
          \<lparr>armed_at = 0, del_deviceID = ''d1'', del_urlHash = hashURL env_fix mp3_url,
           del_filePath = mp3_path, del_ttl = 30 * Minute\<rparr>)
   \<and> (\<exists>e. lookup (one_entry_cache 0 0) ''d1'' (hashURL env_fix mp3_url) = Some e
         \<and> FileExpires e - CacheExpires e = 30 * Minute - 28 * Minute
         \<and> (0 < FileExpires e - CacheExpires e \<longleftrightarrow> 28 * Minute < 30 * Minute))"
proof -
  have r: "run (hashURL env_fix) (boot (NewDeviceCache ''/tmp/media-cache'' 0 0) Map.empty) []
     = Some (boot (NewDeviceCache ''/tmp/media-cache'' 0 0) Map.empty)"
    by simp
  have s: "DeviceCache_Set (hashURL env_fix) 0
        (sys_cache (boot (NewDeviceCache ''/tmp/media-cache'' 0 0) Map.empty))
        ''d1'' mp3_url mp3_path ''audio'' 5
       = (one_entry_cache 0 0,
          \<lparr>armed_at = 0, del_deviceID = ''d1'', del_urlHash = hashURL env_fix mp3_url,
           del_filePath = mp3_path, del_ttl = 30 * Minute\<rparr>)"
    by (simp add: one_entry_cache_def boot_def DeviceCache_Set_def NewDeviceCache_def Let_def)
  from Set_expiry_gap[OF r s] r s show ?thesis
    by simp
qed

text \<open>
  Against claim C7 as stated (the difference is strictly positive for arbitrary
  arguments): a cache constructed with a cache TTL of 60 minutes and a file TTL of 30
  minutes creates an entry whose file expiration lies 30 minutes before its cache
  expiration.
\<close>

theorem Set_expiry_gap_not_positive:
  "map_option (\<lambda>e. FileExpires e - CacheExpires e)
     (lookup (one_entry_cache (60 * Minute) (30 * Minute)) ''d1'' (hashURL env_fix mp3_url))
     = Some (- (30 * Minute))
   \<and> - (30 * Minute) < 0"
  by (simp add: one_entry_cache_def lookup_Set_same NewDeviceCache_def Minute_def Second_def)

lemma lookup_Get_Some:
  "lookup dc d h = Some e \<Longrightarrow>
   \<exists>n. Uses e \<le> n \<and> lookup (snd (DeviceCache_Get H now dc d' u)) d h = Some (e\<lparr>Uses := n\<rparr>)"
  apply (cases "d' = d"; cases "H u = h")
  apply (auto simp: lookup_def DeviceCache_Get_def Let_def recordHit_def recordMiss_def update_conv'
        split: option.splits if_splits intro: exI[of _ "Uses e"] exI[of _ "Uses e + 1"])
  done

lemma lookup_Gets_Some:
  "lookup dc d h = Some e \<Longrightarrow>
   \<exists>n. Uses e \<le> n \<and> lookup (Gets H dc calls) d h = Some (e\<lparr>Uses := n\<rparr>)"
proof (induction calls arbitrary: dc e)
  case Nil
  then show ?case by (auto intro: exI[of _ "Uses e"])
next
  case (Cons c calls)
  obtain now d' u where c: "c = (now, d', u)" by (cases c) auto
  from lookup_Get_Some[OF Cons.prems, of H now d' u]
  obtain n where n: "Uses e \<le> n"
    "lookup (snd (DeviceCache_Get H now dc d' u)) d h = Some (e\<lparr>Uses := n\<rparr>)" by blast
  from Cons.IH[OF n(2)] obtain m where "Uses (e\<lparr>Uses := n\<rparr>) \<le> m"
    "lookup (Gets H (snd (DeviceCache_Get H now dc d' u)) calls) d h
       = Some (e\<lparr>Uses := n, Uses := m\<rparr>)"
    by blast
  with n c show ?case by (auto intro!: exI[of _ m])
qed

lemma lookup_Get_None:
  "lookup dc d h = None \<Longrightarrow> lookup (snd (DeviceCache_Get H now dc d' u)) d h = None"
  apply (cases "d' = d"; cases "H u = h")
  apply (auto simp: lookup_def DeviceCache_Get_def Let_def recordHit_def recordMiss_def update_conv'
        split: option.splits if_splits)
  done

lemma lookup_Gets_None:
  "lookup dc d h = None \<Longrightarrow> lookup (Gets H dc calls) d h = None"
proof (induction calls arbitrary: dc)
  case Nil
  then show ?case by simp
next
  case (Cons c calls)
  obtain now d' u where c: "c = (now, d', u)" by (cases c) auto
  from Cons.IH[OF lookup_Get_None[OF Cons.prems, of H now d' u]] c show ?case by simp
qed

text \<open>
  Claim C8: whatever sequence of \<^verbatim>\<open>Get\<close> calls is made (for this entry or any other,
  hits or misses), an entry of the map stays in the map with every field but \<^verbatim>\<open>Uses\<close>
  unchanged: \<^verbatim>\<open>CacheExpires\<close>, \<^verbatim>\<open>FileExpires\<close>, \<^verbatim>\<open>Created\<close>, \<^verbatim>\<open>ProcessedPath\<close>,
  \<^verbatim>\<open>MediaType\<close>, \<^verbatim>\<open>Size\<close> and \<^verbatim>\<open>URL\<close> are not written by reads, and \<^verbatim>\<open>Uses\<close> only
  grows.
\<close>

theorem Gets_change_only_Uses:
  assumes "lookup dc d h = Some e"
  shows "\<exists>e'. lookup (Gets H dc calls) d h = Some e'
           \<and> CacheExpires e' = CacheExpires e \<and> FileExpires e' = FileExpires e
           \<and> Created e' = Created e \<and> ProcessedPath e' = ProcessedPath e
           \<and> MediaType e' = MediaType e \<and> Size e' = Size e \<and> URL e' = URL e
           \<and> Uses e \<le> Uses e'"
proof -
  from lookup_Gets_Some[OF assms, of H calls] obtain n where
    "Uses e \<le> n" "lookup (Gets H dc calls) d h = Some (e\<lparr>Uses := n\<rparr>)" by blast
  then show ?thesis by simp
qed

text \<open>
  The theorem at work: three lookups (a hit, a miss for another device, a miss after
  the cache TTL) on a cache with one entry.
\<close>

theorem Gets_change_only_Uses_witness:
  "lookup (one_entry_cache 0 0) ''d1'' (hashURL env_fix mp3_url)
     = Some \<lparr>ProcessedPath = mp3_path, CacheExpires = 28 * Minute, FileExpires = 30 * Minute,
             Created = 0, Uses = 0, Size = 5, MediaType = ''audio'', URL = mp3_url\<rparr>
   \<and> (\<exists>e'. lookup (Gets (hashURL env_fix) (one_entry_cache 0 0)
                 [(Minute, ''d1'', mp3_url), (2 * Minute, ''d2'', mp3_url),
                  (29 * Minute, ''d1'', mp3_url)])
               ''d1'' (hashURL env_fix mp3_url) = Some e'
          \<and> CacheExpires e' = 28 * Minute \<and> FileExpires e' = 30 * Minute
          \<and> Created e' = 0 \<and> ProcessedPath e' = mp3_path
          \<and> MediaType e' = ''audio'' \<and> Size e' = 5 \<and> URL e' = mp3_url
          \<and> 0 \<le> Uses e')"
proof -
  have l: "lookup (one_entry_cache 0 0) ''d1'' (hashURL env_fix mp3_url)
     = Some \<lparr>ProcessedPath = mp3_path, CacheExpires = 28 * Minute, FileExpires = 30 * Minute,
             Created = 0, Uses = 0, Size = 5, MediaType = ''audio'', URL = mp3_url\<rparr>"
    using lookup_one_entry_cache[of 0 0] by simp
  from Gets_change_only_Uses[OF l, of "hashURL env_fix"
      "[(Minute, ''d1'', mp3_url), (2 * Minute, ''d2'', mp3_url), (29 * Minute, ''d1'', mp3_url)]"] l
  show ?thesis by simp
qed

text \<open>
  Claim C2 at a concrete run (the claim fails there).  The URL is converted for the
  device at time 0 and again at minute 29; the second \<^verbatim>\<open>Set\<close> replaces the entry, and
  the new entry's \<^verbatim>\<open>CacheExpires\<close> is minute 57.  At minute 30 the goroutine of the
  first \<^verbatim>\<open>Set\<close> wakes and deletes the map entry by its key: the replacement is gone, and
  a \<^verbatim>\<open>Get\<close> at minute 31, 26 minutes before the replacement expires, misses.
\<close>

theorem old_deleter_removes_replacement:
  "map_option (\<lambda>s. map_option CacheExpires (lookup (sys_cache s) ''d1'' (hashURL env_fix mp3_url)))
     (run (hashURL env_fix) (boot (NewDeviceCache ''/tmp/media-cache'' 0 0) Map.empty)
        replaced_entry_events)
     = Some (Some (57 * Minute))
   \<and> map_option (\<lambda>s. lookup (sys_cache s) ''d1'' (hashURL env_fix mp3_url))
     (run (hashURL env_fix) (boot (NewDeviceCache ''/tmp/media-cache'' 0 0) Map.empty)
        (replaced_entry_events @ [(30 * Minute, Ev_Wake 0)]))
     = Some None
   \<and> map_option (\<lambda>s. fst (DeviceCache_Get (hashURL env_fix) (31 * Minute) (sys_cache s) ''d1'' mp3_url))
     (run (hashURL env_fix) (boot (NewDeviceCache ''/tmp/media-cache'' 0 0) Map.empty)
        (replaced_entry_events @ [(30 * Minute, Ev_Wake 0)]))
     = Some None"
  by (simp add: replaced_entry_events_def Let_def boot_def NewDeviceCache_def DeviceCache_Set_def
        DeviceCache_Get_def scheduleFileDeletion_def lookup_def Minute_def Second_def
        recordMiss_def mp3_path_def)

text \<open>
  What does hold of the two halves of that claim: a \<^verbatim>\<open>Get\<close> for an entry that is in the
  map, at or before its \<^verbatim>\<open>CacheExpires\<close>, is a hit; and the sweeper, unlike the
  per-entry goroutine, removes no entry before that entry's own \<^verbatim>\<open>FileExpires\<close>.
\<close>

lemma Get_present_hit:
  "lookup dc d (H u) = Some e \<Longrightarrow> now \<le> CacheExpires e \<Longrightarrow>
   fst (DeviceCache_Get H now dc d u) = Some (e\<lparr>Uses := Uses e + 1\<rparr>)"
  by (auto simp: lookup_def DeviceCache_Get_def Let_def split: option.splits)

lemma map_of_filter_kept:
  "map_of xs k = Some v \<Longrightarrow> P (k, v) \<Longrightarrow> map_of (filter P xs) k = Some v"
  by (induction xs) (auto split: if_splits)

lemma cleanup_keeps_unexpired:
  assumes "lookup dc d h = Some e" and "\<not> now > FileExpires e"
  shows "lookup (fst (cleanup now dc)) d h = Some e"
proof -
  from assms(1) obtain sub where sub: "map_of (cache dc) d = Some sub" "map_of sub h = Some e"
    by (auto simp: lookup_def split: option.splits)
  let ?keep = "\<lambda>x. \<not> (case x of (urlHash, entry) \<Rightarrow> now > FileExpires entry)"
  let ?swept = "map (\<lambda>(deviceID, deviceCache). (deviceID, filter ?keep deviceCache)) (cache dc)"
  have e: "map_of (filter ?keep sub) h = Some e"
    using map_of_filter_kept[OF sub(2), of ?keep] assms(2) by simp
  then have ne: "filter ?keep sub \<noteq> []" by auto
  have "map_of ?swept d = Some (filter ?keep sub)"
    using sub(1) by (induction "cache dc" arbitrary: dc) (auto simp: map_of_map split: if_splits)
  then have "map_of (filter (\<lambda>(deviceID, deviceCache). deviceCache \<noteq> []) ?swept) d
      = Some (filter ?keep sub)"
    using map_of_filter_kept[of ?swept d "filter ?keep sub" "\<lambda>(deviceID, deviceCache). deviceCache \<noteq> []"] ne
    by simp
  with e show ?thesis
    by (simp add: cleanup_def lookup_def Let_def)
qed

section \<open>Properties of the buffer pool and the downloader\<close>

text \<open>
  Claim C4 at two concrete runs (the claim fails there).  On a pool built with one
  buffer, two acquisitions: the first is served from the reserve, the second by the
  factory; \<open>hits\<close> ends at 2 and \<open>misses\<close> at 1, so the second acquisition is counted
  as a hit and as a miss and \<open>hits + misses\<close> is 3 for 2 acquisitions.  On a pool
  built with no buffer, one acquisition is served by the factory and \<open>hits\<close> is 1.
  Each tuple is (acquisitions, served from the reserve, factory allocations, \<open>hits\<close>,
  \<open>misses\<close>).
\<close>

theorem Get_counts_hit_on_every_acquisition:
  "map_sum id (\<lambda>r. (acquired r, from_reserve r, from_factory r, hits (bp_of r), misses (bp_of r)))
     (pool_trace 1 16 [Acquire, Acquire]) = Inr (2, 1, 1, 2, 1)
   \<and> map_sum id (\<lambda>r. (acquired r, from_reserve r, from_factory r, hits (bp_of r), misses (bp_of r)))
     (pool_trace 0 16 [Acquire]) = Inr (1, 0, 1, 1, 1)"
  by (simp add: pool_trace_def NewBufferPool_def pool_start_def BufferPool_Get_def
        pool_New_def make_bytes_def Let_def)

text \<open>
  The counting the code does over any sequence of acquisitions and releases: \<open>hits\<close>
  grows by the number of acquisitions, \<open>misses\<close> by the number of factory
  allocations, and each acquisition is served either from the reserve or by the
  factory.  So \<open>hits + misses\<close> grows by the acquisitions plus the factory allocations.
\<close>

lemma pool_step_counts:
  "pool_step r x = Inr r' \<Longrightarrow>
   hits (bp_of r') - hits (bp_of r) = acquired r' - acquired r \<and>
   misses (bp_of r') - misses (bp_of r) = from_factory r' - from_factory r \<and>
   acquired r' - acquired r = (from_reserve r' - from_reserve r) + (from_factory r' - from_factory r)"
  by (cases x)
     (auto simp: BufferPool_Get_def BufferPool_Put_def pool_New_def Let_def
           split: sum.splits list.splits if_splits prod.splits)

lemma pool_steps_counts:
  "pool_steps r ops = Inr r' \<Longrightarrow>
   hits (bp_of r') - hits (bp_of r) = acquired r' - acquired r \<and>
   misses (bp_of r') - misses (bp_of r) = from_factory r' - from_factory r \<and>
   acquired r' - acquired r = (from_reserve r' - from_reserve r) + (from_factory r' - from_factory r)"
proof (induction ops arbitrary: r)
  case Nil
  then show ?case by simp
next
  case (Cons x ops)
  then obtain r1 where r1: "pool_step r x = Inr r1" "pool_steps r1 ops = Inr r'"
    by (auto split: sum.splits)
  from pool_step_counts[OF r1(1)] Cons.IH[OF r1(2)] show ?case by linarith
qed

text \<open>
  Claim C3 at concrete downloads (the claim fails there).  Each result is the data
  returned, the pool's \<open>hits\<close> and its \<open>inUse\<close> after the call.  With the default pool
  of 100 buffers of 10 MiB, a response of known length 1000 is read without the pool
  (\<open>hits\<close> stays 0) although 1000 is far below the buffer size: the length is compared
  with the number of buffers allocated.  With 2 buffers of 8 bytes, a length of 5
  bypasses the pool and a length of 2 takes a buffer from it.
\<close>

theorem Download_known_length_compared_with_count:
  "download_fix 0 100 (10 * 1024 * 1024) 1000 (replicate 1000 0x41)
     = (Inr (replicate 1000 0x41), 0, 0)
   \<and> download_fix 0 2 8 5 [1, 2, 3, 4, 5] = (Inr [1, 2, 3, 4, 5], 0, 0)
   \<and> download_fix 0 2 8 2 [1, 2] = (Inr [1, 2], 1, 0)"
  by (simp add: download_fix_def NewBufferPool_def Download_def NewDownloader_def
        read_limited_def body_short_def body_stream_def Let_def
        read_pooled_def BufferPool_GetSized_def BufferPool_Get_def reslice_def cap_def
        contents_def BufferPool_PutSized_def BufferPool_Put_def numeral_2_eq_2)

text \<open>
  In general: a known length above the number of buffers allocated leaves the pool
  untouched, whatever the buffer size.
\<close>

lemma Download_known_length_above_count:
  assumes "url \<noteq> []" and "prefix ''http://'' url \<or> prefix ''https://'' url"
    and "client url = Responded resp" and "StatusCode resp = 200"
    and "allocated bp < ContentLength resp" and "0 < ContentLength resp"
    and "ContentLength resp \<le> maxSize d"
  shows "snd (Download d client bp url) = bp"
  using assms
  by (auto simp: Download_def read_limited_def Let_def split: sum.splits)

text \<open>
  Claim C5 at concrete downloads (the claim fails there).  With the default cap of
  500 MiB and a response of unknown length, a body of one byte more than the cap is
  returned without an error, cut to the cap.  The same with a cap of 4 bytes and a
  body of 5; a body of exactly 4 bytes is returned in full; and an advertised length
  of 5 is refused.
\<close>

theorem Download_unknown_length_truncates:
  "download_fix 0 100 (10 * 1024 * 1024) (- 1) (replicate (500 * 1024 * 1024 + 1) 0x41)
     = (Inr (replicate (500 * 1024 * 1024) 0x41), 0, 0)
   \<and> download_fix 4 2 8 (- 1) [1, 2, 3, 4, 5] = (Inr [1, 2, 3, 4], 0, 0)
   \<and> download_fix 4 2 8 (- 1) [1, 2, 3, 4] = (Inr [1, 2, 3, 4], 0, 0)
   \<and> download_fix 4 2 8 5 [1, 2, 3, 4, 5] = (Inl (Error ''file too large''), 0, 0)"
  by (simp add: download_fix_def NewBufferPool_def Download_def NewDownloader_def
        read_limited_def body_short_def body_stream_def Let_def)


text \<open>
  In general: a body of unknown length longer than the cap is returned cut to the
  cap, with no error.
\<close>

lemma Download_unknown_length:
  assumes "url \<noteq> []" and "prefix ''http://'' url \<or> prefix ''https://'' url"
    and "client url = Responded resp" and "StatusCode resp = 200" and "ContentLength resp < 0"
    and "0 < maxSize d" and "maxSize d < int (length (Body resp))"
  shows "Download d client bp url = (Inr (take (nat (maxSize d)) (Body resp)), bp)"
proof -
  have "take (nat (maxSize d)) (Body resp) \<noteq> []"
    using assms(6,7) by (cases "Body resp") auto
  with assms show ?thesis
    by (auto simp: Download_def read_limited_def body_short_def body_stream_def Let_def)
qed

section \<open>Properties of the video converter's sampling\<close>

text \<open>
  Claim C9 at a concrete input (the claim fails there).  For the level \<^verbatim>\<open>basic\<close> and a
  probed bitrate of 5 kbps, whatever the generator draws, the variation
  \<^verbatim>\<open>int(5 * (0.05 + k/100))\<close> with \<open>k < 6\<close> is 0, and \<^verbatim>\<open>rand.Intn(0)\<close> panics after the
  first draw.
\<close>

theorem getRandomizedParams_small_bitrate_panics:
  "VideoConverter_getRandomizedParams ''basic'' 5 g
     = (Inl (Panic ''invalid argument to Intn''), g\<lparr>drawn := drawn g + 1\<rparr>)"
proof -
  have "int (draws g (drawn g)) mod 6 < 6" "0 \<le> int (draws g (drawn g)) mod 6" by simp_all
  then have "int_of_percent 5 (5 + int (draws g (drawn g)) mod 6) = 0"
    by (simp add: int_of_percent_def)
  then show ?thesis
    by (simp add: VideoConverter_getRandomizedParams_def rbind_def Intn_def Let_def)
qed

text \<open>
  In general: at each of the three randomizing levels, every probed bitrate from 1 to
  6 kbps ends in that panic, whatever is drawn.
\<close>

lemma int_of_percent_small:
  assumes "0 < b" "b \<le> 6" "0 \<le> p" "p \<le> 15"
  shows "int_of_percent b p = 0"
proof -
  have "b * p \<le> 6 * 15" using assms by (intro mult_mono) auto
  moreover have "0 \<le> b * p" using assms by simp
  ultimately show ?thesis by (simp add: int_of_percent_def)
qed

lemma getRandomizedParams_panics_upto_6:
  assumes "0 < b" "b \<le> 6" "level = ''basic'' \<or> level = ''moderate'' \<or> level = ''paranoid''"
  shows "fst (VideoConverter_getRandomizedParams level b g) = Inl (Panic ''invalid argument to Intn'')"
proof -
  have m: "0 \<le> int (draws g (drawn g)) mod n" "int (draws g (drawn g)) mod n < n" if "0 < n" for n
    using that by simp_all
  have "int_of_percent b (5 + int (draws g (drawn g)) mod 6) = 0"
       "int_of_percent b (8 + int (draws g (drawn g)) mod 5) = 0"
       "int_of_percent b (10 + int (draws g (drawn g)) mod 6) = 0"
    using m[of 6] m[of 5] assms(1,2) by (auto intro!: int_of_percent_small)
  with assms(3) show ?thesis
    by (auto simp: VideoConverter_getRandomizedParams_def rbind_def Intn_def Let_def)
qed

section \<open>Properties of the request handler\<close>

lemma Itoa_1700000000: "Itoa 1700000000 = ''1700000000''"
  by (simp add: Itoa_def digit_char_def)


lemma detectFormat_png_1x1: "detectFormat png_1x1 = ''png''"
  by (simp add: detectFormat_def png_1x1_def)

lemma adjustOutputPath_png_fix:
  "adjustOutputPath ''/tmp/media-cache/imagens/d2_d74c3b09_1700000000.jpg'' ''png''
     = ''/tmp/media-cache/imagens/d2_d74c3b09_1700000000.png''"
  by (simp add: adjustOutputPath_def filepath_Ext_def TrimSuffix_def Let_def suffix_def)

text \<open>
  Claim C1 at a concrete request (the claim fails there).  The request of the spec's
  scenario 2 (device \<^verbatim>\<open>d2\<close>, the base64 text of a PNG of one pixel, media type image,
  level none) on a fresh process whose transcoder succeeds: the image converter
  writes its output under the path with the extension \<^verbatim>\<open>.png\<close>, the handler stats
  the path it generated, which ends in \<^verbatim>\<open>.jpg\<close> and does not exist, and answers 500;
  nothing is inserted into the cache.
\<close>

theorem png_request_stat_fails:
  "(case Convert env_fix handler_fix (readings_fix 0) (Some png_request) False (world_fix 0 0) of
      (r, w) \<Rightarrow>
        r = Failed 500 ''Failed to stat output file''
        \<and> w_files w ''/tmp/media-cache/imagens/d2_d74c3b09_1700000000.png'' = Some png_1x1
        \<and> w_files w ''/tmp/media-cache/imagens/d2_d74c3b09_1700000000.jpg'' = None
        \<and> cache (w_cache w) = [])"
proof -
  have png: "png_1x1 \<noteq> []" by (simp add: png_1x1_def)
  have b64: "png_b64 \<noteq> []" by (simp add: png_b64_def)
  show ?thesis
    by (simp add: Convert_def Convert_process_def fetch_input_def dispatch_Convert_def
        env_fix_def handler_fix_def readings_fix_def world_fix_def png_request_def
        NewConverterHandler_def NewDeviceCache_def DeviceCache_Get_def recordMiss_def
        getMediaSubdir_def GenerateOutputPath_def Itoa_1700000000 Second_def
        ImageConverter_Convert_def detectFormat_png_1x1 ImageConverter_getRandomizedParams_def
        rreturn_def transcode_to_def adjustOutputPath_png_fix Let_def png b64)
qed
















end
